theory Spec2Isabelle
  imports Main
begin

section \<open>Data model\<close>

text \<open>
  Go strings are byte sequences, modelled as \<open>string\<close> (a list of 8-bit characters).
  The anonymous structs nested in \<open>DictEntry\<close> and \<open>SparqlEntry\<close> get a record each;
  field names are the source's.  A Go map is a partial function; a nil map reads as the
  empty one.
\<close>

record DictDefinition =
  Definition :: string
  Example :: string
  Synonyms :: "string list"
  Antonyms :: "string list"

record Meaning =
  PartOfSpeech :: string
  Definitions :: "DictDefinition list"

record DictEntry =
  Word :: string
  Meanings :: "Meaning list"

type_synonym Binding = "string \<rightharpoonup> (string \<rightharpoonup> string)"

record SparqlHead =
  Vars :: "string list"

record SparqlResults =
  Bindings :: "Binding list"

record SparqlEntry =
  Head :: SparqlHead
  Results :: SparqlResults

record Definition =
  Word :: string
  PartOfSpeech :: string
  Definition :: string
  Example :: string
  Source :: string

text \<open>\<open>time.Duration\<close> is a count of nanoseconds.\<close>

type_synonym Duration = int

record LookupTiming =
  Total :: Duration
  Sources :: "string \<rightharpoonup> Duration"

text \<open>The zero value \<open>LookupTiming{}\<close>: no time, nil map.\<close>

definition LookupTiming_zero :: LookupTiming where
  "LookupTiming_zero = \<lparr>Total = 0, Sources = Map.empty\<rparr>"

text \<open>
  Go's \<open>error\<close> values, by the place that creates them: the HTTP client, the two
  \<open>fmt.Errorf\<close> calls of the provider clients, the JSON package, and for the
  search history the path lookup and the file system, where \<open>os.IsNotExist\<close> tells a missing file from
  the other failures.
\<close>

datatype os_error =
    ErrNotExist
  | ErrOther string

datatype error =
    TransportError string
  | APIStatusError int
  | JSONExpectedArray
  | JSONError string
  | CannotResolvePath
  | OSError os_error

fun IsNotExist :: "error \<Rightarrow> bool" where
  "IsNotExist (OSError ErrNotExist) = True"
| "IsNotExist err = False"

section \<open>Library functions used by the normalizers\<close>

text \<open>Indexing a \<open>map[string]string\<close>: the zero value for a missing key.\<close>

definition index_map :: "(string \<rightharpoonup> string) \<Rightarrow> string \<Rightarrow> string" where
  "index_map v k = (case v k of None \<Rightarrow> [] | Some s \<Rightarrow> s)"

text \<open>
  \<open>strings.LastIndex(s, "#")\<close> with a one-byte pattern scans the bytes from the end
  and returns the index of the first match, or -1.
\<close>

fun LastIndex_scan :: "string \<Rightarrow> char \<Rightarrow> nat \<Rightarrow> int" where
  "LastIndex_scan s c 0 = - 1"
| "LastIndex_scan s c (Suc i) = (if s ! i = c then int i else LastIndex_scan s c i)"

definition LastIndex :: "string \<Rightarrow> char \<Rightarrow> int" where
  "LastIndex s c = LastIndex_scan s c (length s)"

text \<open>
  \<open>strings.TrimSpace\<close> removes leading, then trailing, white space as Unicode defines
  it.  On the UTF-8 bytes of a Go string a white-space rune is one of the encodings
  below (six ASCII bytes, U+0085, U+00A0, U+1680, U+2000 to U+200A, U+2028, U+2029,
  U+202F, U+205F, U+3000); a byte that starts no valid encoding decodes to U+FFFD,
  which is not white space.
\<close>

definition spaceEncodings :: "string list" where
  "spaceEncodings =
    [[CHR 0x09], [CHR 0x0A], [CHR 0x0B], [CHR 0x0C], [CHR 0x0D], [CHR 0x20],
     [CHR 0xC2, CHR 0x85], [CHR 0xC2, CHR 0xA0],
     [CHR 0xE1, CHR 0x9A, CHR 0x80],
     [CHR 0xE2, CHR 0x80, CHR 0x80], [CHR 0xE2, CHR 0x80, CHR 0x81],
     [CHR 0xE2, CHR 0x80, CHR 0x82], [CHR 0xE2, CHR 0x80, CHR 0x83],
     [CHR 0xE2, CHR 0x80, CHR 0x84], [CHR 0xE2, CHR 0x80, CHR 0x85],
     [CHR 0xE2, CHR 0x80, CHR 0x86], [CHR 0xE2, CHR 0x80, CHR 0x87],
     [CHR 0xE2, CHR 0x80, CHR 0x88], [CHR 0xE2, CHR 0x80, CHR 0x89],
     [CHR 0xE2, CHR 0x80, CHR 0x8A],
     [CHR 0xE2, CHR 0x80, CHR 0xA8], [CHR 0xE2, CHR 0x80, CHR 0xA9],
     [CHR 0xE2, CHR 0x80, CHR 0xAF],
     [CHR 0xE2, CHR 0x81, CHR 0x9F],
     [CHR 0xE3, CHR 0x80, CHR 0x80]]"

text \<open>Width in bytes of the white-space rune that starts (ends) \<open>s\<close>; 0 when none does.\<close>

definition leadingSpace :: "string \<Rightarrow> nat" where
  "leadingSpace s =
    (case find (\<lambda>p. take (length p) s = p) spaceEncodings of
       None \<Rightarrow> 0 | Some p \<Rightarrow> length p)"

definition trailingSpace :: "string \<Rightarrow> nat" where
  "trailingSpace s =
    (case find (\<lambda>p. length p \<le> length s \<and> drop (length s - length p) s = p) spaceEncodings of
       None \<Rightarrow> 0 | Some p \<Rightarrow> length p)"

lemma leadingSpace_Nil: "leadingSpace [] = 0"
  by (simp add: leadingSpace_def spaceEncodings_def)

lemma trailingSpace_Nil: "trailingSpace [] = 0"
  by (simp add: trailingSpace_def spaceEncodings_def)

lemma leadingSpace_less: "0 < leadingSpace s \<Longrightarrow> length s - leadingSpace s < length s"
  by (cases s) (simp_all add: leadingSpace_Nil)

lemma trailingSpace_less: "0 < trailingSpace s \<Longrightarrow> length s - trailingSpace s < length s"
  by (cases s) (simp_all add: trailingSpace_Nil)

function TrimLeft :: "string \<Rightarrow> string" where
  "TrimLeft s = (if leadingSpace s = 0 then s else TrimLeft (drop (leadingSpace s) s))"
  by pat_completeness auto
termination
  by (relation "measure length") (auto intro: leadingSpace_less)

function TrimRight :: "string \<Rightarrow> string" where
  "TrimRight s =
    (if trailingSpace s = 0 then s else TrimRight (take (length s - trailingSpace s) s))"
  by pat_completeness auto
termination
  by (relation "measure length") (auto intro: trailingSpace_less)

declare TrimLeft.simps [simp del] TrimRight.simps [simp del]

definition TrimSpace :: "string \<Rightarrow> string" where
  "TrimSpace s = TrimRight (TrimLeft s)"

section \<open>Normalizers\<close>

subsection \<open>ConvertDictEntries\<close>

text \<open>
  Three nested \<open>range\<close> loops append to the one slice \<open>definitions\<close>; each loop is a
  recursion over its list that threads the slice.
\<close>

fun ConvertDictEntries_defs ::
  "DictEntry \<Rightarrow> Meaning \<Rightarrow> DictDefinition list \<Rightarrow> Definition list \<Rightarrow> Definition list" where
  "ConvertDictEntries_defs entry meaning [] definitions = definitions"
| "ConvertDictEntries_defs entry meaning (def # defs) definitions =
     ConvertDictEntries_defs entry meaning defs
       (definitions @
         [\<lparr>Word = DictEntry.Word entry,
           PartOfSpeech = Meaning.PartOfSpeech meaning,
           Definition = DictDefinition.Definition def,
           Example = DictDefinition.Example def,
           Source = ''dictionaryapi.dev''\<rparr>])"

fun ConvertDictEntries_meanings ::
  "DictEntry \<Rightarrow> Meaning list \<Rightarrow> Definition list \<Rightarrow> Definition list" where
  "ConvertDictEntries_meanings entry [] definitions = definitions"
| "ConvertDictEntries_meanings entry (meaning # meanings) definitions =
     ConvertDictEntries_meanings entry meanings
       (ConvertDictEntries_defs entry meaning (Definitions meaning) definitions)"

fun ConvertDictEntries_entries :: "DictEntry list \<Rightarrow> Definition list \<Rightarrow> Definition list" where
  "ConvertDictEntries_entries [] definitions = definitions"
| "ConvertDictEntries_entries (entry # entries) definitions =
     ConvertDictEntries_entries entries
       (ConvertDictEntries_meanings entry (Meanings entry) definitions)"

definition ConvertDictEntries :: "DictEntry list \<Rightarrow> Definition list" where
  "ConvertDictEntries entries = ConvertDictEntries_entries entries []"

subsection \<open>ConvertDBnaryEntries\<close>

fun ConvertDBnaryEntries_bindings ::
  "string \<Rightarrow> Binding list \<Rightarrow> Definition list \<Rightarrow> Definition list" where
  "ConvertDBnaryEntries_bindings word [] definitions = definitions"
| "ConvertDBnaryEntries_bindings word (binding # bindings) definitions =
     (let def = (case binding ''definition'' of None \<Rightarrow> [] | Some v \<Rightarrow> index_map v ''value'')
      in if TrimSpace def = [] then ConvertDBnaryEntries_bindings word bindings definitions
         else
           let pos = (case binding ''partOfSpeech'' of
                        None \<Rightarrow> []
                      | Some v \<Rightarrow>
                          let pos = index_map v ''value''; i = LastIndex pos CHR ''#''
                          in if i \<noteq> - 1 \<and> i + 1 < int (length pos)
                             then drop (nat (i + 1)) pos else pos);
               ex = (case binding ''example'' of None \<Rightarrow> [] | Some v \<Rightarrow> index_map v ''value'')
           in ConvertDBnaryEntries_bindings word bindings
                (definitions @
                  [\<lparr>Word = word, PartOfSpeech = pos, Definition = def, Example = ex,
                    Source = ''DBnary''\<rparr>]))"

fun ConvertDBnaryEntries_entries ::
  "string \<Rightarrow> SparqlEntry list \<Rightarrow> Definition list \<Rightarrow> Definition list" where
  "ConvertDBnaryEntries_entries word [] definitions = definitions"
| "ConvertDBnaryEntries_entries word (entry # entries) definitions =
     ConvertDBnaryEntries_entries word entries
       (ConvertDBnaryEntries_bindings word (Bindings (Results entry)) definitions)"

definition ConvertDBnaryEntries :: "SparqlEntry list \<Rightarrow> string \<Rightarrow> Definition list" where
  "ConvertDBnaryEntries entries word = ConvertDBnaryEntries_entries word entries []"

section \<open>Provider clients\<close>

text \<open>
  The network and the JSON decoder are outside the repository, so what they deliver is
  an input of the model.  A response is its status code and what the decoder makes of
  its body.  For the first provider the body is read in steps, so it is given as what
  each step of the decoder yields: the first \<open>Token()\<close>, one \<open>Decode\<close> result for
  each time \<open>More()\<close> holds, and the \<open>Token()\<close> after the last element.  For the second
  provider the body is the result of the single \<open>Decode\<close>.  A decoder error carries its
  message.
\<close>

datatype Token =
    Delim char
  | TokString string
  | TokNumber string
  | TokBool bool
  | TokNull

record DictBody =
  first_token :: "string + Token"
  elements :: "(string + DictEntry) list"
  closing_token :: "string + Token"

record 'b Response =
  StatusCode :: int
  Body :: 'b

definition StatusOK :: int where
  "StatusOK = 200"

text \<open>The loop \<open>for decoder.More() { ... decoder.Decode(&entry) ... }\<close>.\<close>

fun LookupDictEntry_decode ::
  "(string + DictEntry) list \<Rightarrow> DictEntry list \<Rightarrow> error + DictEntry list" where
  "LookupDictEntry_decode [] entries = Inr entries"
| "LookupDictEntry_decode (Inl err # rest) entries = Inl (JSONError err)"
| "LookupDictEntry_decode (Inr entry # rest) entries =
     LookupDictEntry_decode rest (entries @ [entry])"

text \<open>\<open>get word\<close> is what \<open>client.Get\<close> returns for the URL built from \<open>word\<close>.\<close>

definition LookupDictEntry ::
  "(string \<Rightarrow> string + DictBody Response) \<Rightarrow> string \<Rightarrow> error + DictEntry list" where
  "LookupDictEntry get word =
    (case get word of
       Inl err \<Rightarrow> Inl (TransportError err)
     | Inr response \<Rightarrow>
         if StatusCode response \<noteq> StatusOK
         then Inl (APIStatusError (StatusCode response))
         else
           (case first_token (Body response) of
              Inl err \<Rightarrow> Inl (JSONError err)
            | Inr token \<Rightarrow>
                if token \<noteq> Delim CHR ''[''
                then Inl JSONExpectedArray
                else
                  (case LookupDictEntry_decode (elements (Body response)) [] of
                     Inl err \<Rightarrow> Inl err
                   | Inr entries \<Rightarrow>
                       (case closing_token (Body response) of
                          Inl err \<Rightarrow> Inl (JSONError err)
                        | Inr _ \<Rightarrow> Inr entries))))"

text \<open>
  The second client builds the request itself, so it has one more early return:
  \<open>http.NewRequest\<close> failing, then \<open>client.Do\<close> failing, then the response.
\<close>

datatype 'b Outcome =
    NewRequestFailed string
  | DoFailed string
  | Responded "'b Response"

definition LookupDBnaryEntry ::
  "(string \<Rightarrow> (string + SparqlEntry) Outcome) \<Rightarrow> string \<Rightarrow> error + SparqlEntry list" where
  "LookupDBnaryEntry do word =
    (case do word of
       NewRequestFailed err \<Rightarrow> Inl (TransportError err)
     | DoFailed err \<Rightarrow> Inl (TransportError err)
     | Responded response \<Rightarrow>
         if StatusCode response \<noteq> StatusOK
         then Inl (APIStatusError (StatusCode response))
         else
           (case Body response of
              Inl err \<Rightarrow> Inl (JSONError err)
            | Inr result \<Rightarrow> Inr [result]))"

section \<open>Aggregation: LookupAll\<close>

text \<open>
  What \<open>LookupAll\<close> cannot decide itself: the two services and the three clock
  readings (\<open>time.Since\<close> in each task and for the whole call).
\<close>

record World =
  dict_get :: "string \<Rightarrow> string + DictBody Response"
  dbnary_do :: "string \<Rightarrow> (string + SparqlEntry) Outcome"
  dict_elapsed :: Duration
  dbnary_elapsed :: Duration
  total_elapsed :: Duration

text \<open>
  Each task is the list of channel sends it performs, in program order.  The three
  channels have capacity 2 and no task sends twice on one channel, so no send blocks;
  a channel is the queue of what was sent on it.
\<close>

datatype Send =
    SendDef "Definition list"
  | SendErr error
  | SendDur string Duration

record Chans =
  defChan :: "Definition list list"
  errChan :: "error list"
  durChan :: "(string \<times> Duration) list"

definition make_chans :: Chans where
  "make_chans = \<lparr>defChan = [], errChan = [], durChan = []\<rparr>"

fun send :: "Chans \<Rightarrow> Send \<Rightarrow> Chans" where
  "send ch (SendDef defs) = ch\<lparr>defChan := defChan ch @ [defs]\<rparr>"
| "send ch (SendErr err) = ch\<lparr>errChan := errChan ch @ [err]\<rparr>"
| "send ch (SendDur name dur) = ch\<lparr>durChan := durChan ch @ [(name, dur)]\<rparr>"

definition task_dict :: "World \<Rightarrow> string \<Rightarrow> Send list" where
  "task_dict w word =
    (case LookupDictEntry (dict_get w) word of
       Inl err \<Rightarrow> [SendErr err]
     | Inr entries \<Rightarrow>
         [SendDef (ConvertDictEntries entries),
          SendDur ''dictionaryapi.dev'' (dict_elapsed w)])"

definition task_dbnary :: "World \<Rightarrow> string \<Rightarrow> Send list" where
  "task_dbnary w word =
    (case LookupDBnaryEntry (dbnary_do w) word of
       Inl err \<Rightarrow> [SendErr err]
     | Inr entries \<Rightarrow>
         [SendDef (ConvertDBnaryEntries entries word),
          SendDur ''DBnary'' (dbnary_elapsed w)])"

text \<open>The schedules of two tasks: every merge of their sends that keeps each task's order.\<close>

fun interleavings :: "'a list \<Rightarrow> 'a list \<Rightarrow> 'a list list" where
  "interleavings [] ys = [ys]"
| "interleavings xs [] = [xs]"
| "interleavings (x # xs) (y # ys) =
     map ((#) x) (interleavings xs (y # ys)) @ map ((#) y) (interleavings (x # xs) ys)"

text \<open>The two \<open>range\<close> loops over the closed channels.\<close>

fun drain_defs :: "Definition list list \<Rightarrow> Definition list \<Rightarrow> Definition list" where
  "drain_defs [] allDefinitions = allDefinitions"
| "drain_defs (defs # rest) allDefinitions = drain_defs rest (allDefinitions @ defs)"

fun drain_durs ::
  "(string \<times> Duration) list \<Rightarrow> (string \<rightharpoonup> Duration) \<Rightarrow> (string \<rightharpoonup> Duration)" where
  "drain_durs [] sources = sources"
| "drain_durs ((name, dur) # rest) sources = drain_durs rest (sources(name \<mapsto> dur))"

text \<open>
  The part of \<open>LookupAll\<close> after the tasks: drain the definitions, build the timing,
  then look at the error channel.
\<close>

definition LookupAll_collect ::
  "Chans \<Rightarrow> Duration \<Rightarrow> Definition list \<times> LookupTiming \<times> error option" where
  "LookupAll_collect ch sinceStart =
    (let allDefinitions = drain_defs (defChan ch) [];
         timings = \<lparr>Total = sinceStart, Sources = drain_durs (durChan ch) Map.empty\<rparr>
     in case errChan ch of
          err # _ \<Rightarrow> (allDefinitions, LookupTiming_zero, Some err)
        | [] \<Rightarrow> (allDefinitions, timings, None))"

text \<open>One run of \<open>LookupAll\<close>, under a given schedule of the sends.\<close>

definition LookupAll_run ::
  "World \<Rightarrow> Send list \<Rightarrow> Definition list \<times> LookupTiming \<times> error option" where
  "LookupAll_run w schedule = LookupAll_collect (foldl send make_chans schedule) (total_elapsed w)"

text \<open>Every result \<open>LookupAll(word)\<close> can return in a world: one for each schedule.\<close>

definition LookupAll ::
  "World \<Rightarrow> string \<Rightarrow> (Definition list \<times> LookupTiming \<times> error option) list" where
  "LookupAll w word =
    map (LookupAll_run w) (interleavings (task_dict w word) (task_dbnary w word))"

section \<open>Search history: getRecentSearches, addRecentSearch\<close>

text \<open>
  The host: whether \<open>runtime.Caller\<close> resolves the source path, the history file
  (absent, unreadable for another reason, or its bytes), and whether creating the
  directory and writing the file fail.  \<open>json.Marshal\<close> and
  \<open>json.Unmarshal\<close> at type \<open>[]string\<close> are parameters.
\<close>

datatype File =
    NotExist
  | Unreadable string
  | Contents string

record Host =
  caller_ok :: bool
  history_file :: File
  mkdir_error :: "os_error option"
  write_error :: "os_error option"

definition ReadFile :: "Host \<Rightarrow> os_error + string" where
  "ReadFile h =
    (case history_file h of
       NotExist \<Rightarrow> Inl ErrNotExist
     | Unreadable err \<Rightarrow> Inl (ErrOther err)
     | Contents bytes \<Rightarrow> Inr bytes)"

definition getRecentSearches ::
  "(string \<Rightarrow> string + string list) \<Rightarrow> Host \<Rightarrow> error + string list" where
  "getRecentSearches unmarshal h =
    (if \<not> caller_ok h then Inl CannotResolvePath
     else
       (case ReadFile h of
          Inl err \<Rightarrow> if IsNotExist (OSError err) then Inr [] else Inl (OSError err)
        | Inr jsonString \<Rightarrow>
            (case unmarshal jsonString of
               Inl err \<Rightarrow> Inl (JSONError err)
             | Inr recentSearches \<Rightarrow> Inr recentSearches)))"

text \<open>
  \<open>addRecentSearch\<close> returns the bytes written, or the error, and the host it leaves.
  \<open>write\<close> is the part after the read: append, encode, resolve the path, create the
  directory, replace the file.  A failing \<open>os.WriteFile\<close> is taken to leave the file as
  it was.
\<close>

definition addRecentSearch_write ::
  "(string list \<Rightarrow> string + string) \<Rightarrow> Host \<Rightarrow> string list \<Rightarrow> string \<Rightarrow>
   (error + string) \<times> Host" where
  "addRecentSearch_write marshal h existingSearches word =
    (case marshal (existingSearches @ [word]) of
       Inl err \<Rightarrow> (Inl (JSONError err), h)
     | Inr jsonString \<Rightarrow>
         if \<not> caller_ok h then (Inl CannotResolvePath, h)
         else
           (case mkdir_error h of
              Some err \<Rightarrow> (Inl (OSError err), h)
            | None \<Rightarrow>
                (case write_error h of
                   Some err \<Rightarrow> (Inl (OSError err), h)
                 | None \<Rightarrow> (Inr jsonString, h\<lparr>history_file := Contents jsonString\<rparr>))))"

definition addRecentSearch ::
  "(string list \<Rightarrow> string + string) \<Rightarrow> (string \<Rightarrow> string + string list) \<Rightarrow>
   Host \<Rightarrow> string \<Rightarrow> (error + string) \<times> Host" where
  "addRecentSearch marshal unmarshal h word =
    (case getRecentSearches unmarshal h of
       Inl err \<Rightarrow>
         if \<not> IsNotExist err then (Inl err, h)
         else addRecentSearch_write marshal h [] word
     | Inr existingSearches \<Rightarrow> addRecentSearch_write marshal h existingSearches word)"

section \<open>Notions used to state the properties\<close>

subsection \<open>Nested-meanings records\<close>

text \<open>The record one leaf definition gives, the leaves of an entry, and their number.\<close>

definition leaf_Definition :: "DictEntry \<Rightarrow> Meaning \<Rightarrow> DictDefinition \<Rightarrow> Definition" where
  "leaf_Definition entry meaning def =
    \<lparr>Word = DictEntry.Word entry,
     PartOfSpeech = Meaning.PartOfSpeech meaning,
     Definition = DictDefinition.Definition def,
     Example = DictDefinition.Example def,
     Source = ''dictionaryapi.dev''\<rparr>"

definition entry_leaves :: "DictEntry \<Rightarrow> Definition list" where
  "entry_leaves entry =
    concat (map (\<lambda>meaning. map (leaf_Definition entry meaning) (Definitions meaning))
                (Meanings entry))"

definition leaf_count :: "DictEntry \<Rightarrow> nat" where
  "leaf_count entry = sum_list (map (\<lambda>meaning. length (Definitions meaning)) (Meanings entry))"

subsection \<open>Graph-query rows\<close>

text \<open>
  All binding rows of a result list in order, the value a row binds to a variable
  (empty when the variable is absent), and the rows whose definition is not blank.
\<close>

definition rows :: "SparqlEntry list \<Rightarrow> Binding list" where
  "rows entries = concat (map (\<lambda>entry. Bindings (Results entry)) entries)"

definition binding_value :: "Binding \<Rightarrow> string \<Rightarrow> string" where
  "binding_value binding var = (case binding var of None \<Rightarrow> [] | Some v \<Rightarrow> index_map v ''value'')"

definition row_kept :: "Binding \<Rightarrow> bool" where
  "row_kept binding = (TrimSpace (binding_value binding ''definition'') \<noteq> [])"

definition kept_rows :: "SparqlEntry list \<Rightarrow> Binding list" where
  "kept_rows entries = filter row_kept (rows entries)"

text \<open>The part-of-speech computation of the loop body, and the record a kept row gives.\<close>

definition cut_fragment :: "string \<Rightarrow> string" where
  "cut_fragment pos =
    (let i = LastIndex pos CHR ''#''
     in if i \<noteq> - 1 \<and> i + 1 < int (length pos) then drop (nat (i + 1)) pos else pos)"

definition row_partOfSpeech :: "Binding \<Rightarrow> string" where
  "row_partOfSpeech binding =
    (case binding ''partOfSpeech'' of None \<Rightarrow> [] | Some v \<Rightarrow> cut_fragment (index_map v ''value''))"

definition row_Definition :: "string \<Rightarrow> Binding \<Rightarrow> Definition" where
  "row_Definition word binding =
    \<lparr>Word = word,
     PartOfSpeech = row_partOfSpeech binding,
     Definition = binding_value binding ''definition'',
     Example = binding_value binding ''example'',
     Source = ''DBnary''\<rparr>"

text \<open>What follows the last \<open>#\<close> of a string: its longest suffix without a \<open>#\<close>.\<close>

definition after_last_hash :: "string \<Rightarrow> string" where
  "after_last_hash s = rev (takeWhile (\<lambda>c. c \<noteq> CHR ''#'') (rev s))"

subsection \<open>Sample inputs\<close>

definition sample_entry :: DictEntry where
  "sample_entry =
    \<lparr>DictEntry.Word = ''run'',
     Meanings =
       [\<lparr>Meaning.PartOfSpeech = ''noun'',
         Definitions =
           [\<lparr>DictDefinition.Definition = ''a jog'', DictDefinition.Example = '''',
             Synonyms = [], Antonyms = []\<rparr>,
            \<lparr>DictDefinition.Definition = ''a score'', DictDefinition.Example = ''a home run'',
             Synonyms = [], Antonyms = []\<rparr>]\<rparr>,
        \<lparr>Meaning.PartOfSpeech = ''verb'',
         Definitions =
           [\<lparr>DictDefinition.Definition = ''to move fast'', DictDefinition.Example = '''',
             Synonyms = [], Antonyms = []\<rparr>]\<rparr>]\<rparr>"

text \<open>
  Six binding rows: a full one, one whose definition is blank, one without a
  definition, one whose part of speech ends in the delimiter, one whose part of speech
  has no delimiter, one without a part of speech.
\<close>

definition row_full :: Binding where
  "row_full =
    [''definition'' \<mapsto> [''value'' \<mapsto> ''a jog''],
     ''partOfSpeech'' \<mapsto> [''value'' \<mapsto> ''http://example.org/ontology#noun''],
     ''example'' \<mapsto> [''value'' \<mapsto> ''a morning run'']]"

definition row_blank :: Binding where
  "row_blank =
    [''definition'' \<mapsto> [''value'' \<mapsto> [CHR 0x20, CHR 0x09, CHR 0xC2, CHR 0xA0, CHR 0x0A]],
     ''partOfSpeech'' \<mapsto> [''value'' \<mapsto> ''http://example.org/ontology#noun'']]"

definition row_no_definition :: Binding where
  "row_no_definition = [''partOfSpeech'' \<mapsto> [''value'' \<mapsto> ''http://example.org/ontology#verb'']]"

definition row_hash_last :: Binding where
  "row_hash_last =
    [''definition'' \<mapsto> [''value'' \<mapsto> ''to move fast''],
     ''partOfSpeech'' \<mapsto> [''value'' \<mapsto> ''http://example.org/ontology#'']]"

definition row_no_hash :: Binding where
  "row_no_hash =
    [''definition'' \<mapsto> [''value'' \<mapsto> ''to flow''],
     ''partOfSpeech'' \<mapsto> [''value'' \<mapsto> ''verb'']]"

definition row_no_partOfSpeech :: Binding where
  "row_no_partOfSpeech = [''definition'' \<mapsto> [''value'' \<mapsto> ''a score'']]"

definition sample_result :: SparqlEntry where
  "sample_result =
    \<lparr>Head = \<lparr>Vars = [''definition'', ''partOfSpeech'', ''example'']\<rparr>,
     Results = \<lparr>Bindings =
       [row_full, row_blank, row_no_definition, row_hash_last, row_no_hash,
        row_no_partOfSpeech]\<rparr>\<rparr>"

subsection \<open>Status codes and sample responses\<close>

text \<open>The successful class of HTTP status codes, 2xx.\<close>

definition success_status :: "int \<Rightarrow> bool" where
  "success_status code = (200 \<le> code \<and> code < 300)"

definition array_body :: DictBody where
  "array_body =
    \<lparr>first_token = Inr (Delim CHR ''[''), elements = [Inr sample_entry],
     closing_token = Inr (Delim CHR '']'')\<rparr>"

definition object_body :: DictBody where
  "object_body =
    \<lparr>first_token = Inr (Delim CHR ''{''), elements = [], closing_token = Inr (Delim CHR ''}'')\<rparr>"

definition dict_ok :: "string \<Rightarrow> string + DictBody Response" where
  "dict_ok word = Inr \<lparr>StatusCode = 200, Body = array_body\<rparr>"

definition dict_object :: "string \<Rightarrow> string + DictBody Response" where
  "dict_object word = Inr \<lparr>StatusCode = 200, Body = object_body\<rparr>"

definition dict_not_found :: "string \<Rightarrow> string + DictBody Response" where
  "dict_not_found word = Inr \<lparr>StatusCode = 404, Body = object_body\<rparr>"

definition dict_no_content :: "string \<Rightarrow> string + DictBody Response" where
  "dict_no_content word = Inr \<lparr>StatusCode = 204, Body = array_body\<rparr>"

definition dbnary_ok :: "string \<Rightarrow> (string + SparqlEntry) Outcome" where
  "dbnary_ok word = Responded \<lparr>StatusCode = 200, Body = Inr sample_result\<rparr>"

definition dbnary_unavailable :: "string \<Rightarrow> (string + SparqlEntry) Outcome" where
  "dbnary_unavailable word = Responded \<lparr>StatusCode = 503, Body = Inl ''invalid character''\<rparr>"

definition dbnary_timeout :: "string \<Rightarrow> (string + SparqlEntry) Outcome" where
  "dbnary_timeout word = DoFailed ''context deadline exceeded''"

subsection \<open>Schedules and sample worlds\<close>

text \<open>The errors sent in a schedule, in the order of sending.\<close>

fun sent_errors :: "Send list \<Rightarrow> error list" where
  "sent_errors [] = []"
| "sent_errors (SendErr err # schedule) = err # sent_errors schedule"
| "sent_errors (SendDef defs # schedule) = sent_errors schedule"
| "sent_errors (SendDur name dur # schedule) = sent_errors schedule"

text \<open>What a provider's task delivers to the definitions channel: nothing when it fails.\<close>

definition dict_delivered :: "World \<Rightarrow> string \<Rightarrow> Definition list" where
  "dict_delivered w word =
    (case LookupDictEntry (dict_get w) word of
       Inl err \<Rightarrow> [] | Inr entries \<Rightarrow> ConvertDictEntries entries)"

definition dbnary_delivered :: "World \<Rightarrow> string \<Rightarrow> Definition list" where
  "dbnary_delivered w word =
    (case LookupDBnaryEntry (dbnary_do w) word of
       Inl err \<Rightarrow> [] | Inr entries \<Rightarrow> ConvertDBnaryEntries entries word)"

definition world_ok :: World where
  "world_ok =
    \<lparr>dict_get = dict_ok, dbnary_do = dbnary_ok, dict_elapsed = 150, dbnary_elapsed = 300,
     total_elapsed = 310\<rparr>"

definition world_timeout :: World where
  "world_timeout =
    \<lparr>dict_get = dict_ok, dbnary_do = dbnary_timeout, dict_elapsed = 150,
     dbnary_elapsed = 10000, total_elapsed = 10010\<rparr>"

subsection \<open>A JSON codec for lists of strings\<close>

text \<open>
  The compact encoding \<open>json.Marshal\<close> gives a list of plain strings: the items in
  double quotes, separated by commas, in brackets, with the double quote and the
  backslash escaped by a backslash; and a reader of that encoding, one character at a
  time.
\<close>

fun json_escape :: "string \<Rightarrow> string" where
  "json_escape [] = []"
| "json_escape (c # cs) =
     (if c = CHR 0x22 \<or> c = CHR 0x5C then CHR 0x5C # c # json_escape cs
      else c # json_escape cs)"

fun json_items :: "string list \<Rightarrow> string" where
  "json_items [] = []"
| "json_items [x] = CHR 0x22 # json_escape x @ [CHR 0x22]"
| "json_items (x # xs) = CHR 0x22 # json_escape x @ [CHR 0x22] @ '','' @ json_items xs"

definition json_marshal :: "string list \<Rightarrow> string + string" where
  "json_marshal xs = Inr (''['' @ json_items xs @ '']'')"

datatype json_state =
    AtStart
  | AfterOpen
  | InString string
  | AfterBackslash string
  | AfterItem
  | AfterComma
  | AtEnd

fun json_scan :: "json_state \<Rightarrow> string list \<Rightarrow> string \<Rightarrow> string list option" where
  "json_scan state items [] = (if state = AtEnd then Some items else None)"
| "json_scan AtStart items (c # cs) =
     (if c = CHR ''['' then json_scan AfterOpen items cs else None)"
| "json_scan AfterOpen items (c # cs) =
     (if c = CHR '']'' then json_scan AtEnd items cs
      else if c = CHR 0x22 then json_scan (InString []) items cs else None)"
| "json_scan (InString s) items (c # cs) =
     (if c = CHR 0x22 then json_scan AfterItem (items @ [s]) cs
      else if c = CHR 0x5C then json_scan (AfterBackslash s) items cs
      else json_scan (InString (s @ [c])) items cs)"
| "json_scan (AfterBackslash s) items (c # cs) =
     (if c = CHR 0x22 \<or> c = CHR 0x5C then json_scan (InString (s @ [c])) items cs else None)"
| "json_scan AfterItem items (c # cs) =
     (if c = CHR '']'' then json_scan AtEnd items cs
      else if c = CHR '','' then json_scan AfterComma items cs else None)"
| "json_scan AfterComma items (c # cs) =
     (if c = CHR 0x22 then json_scan (InString []) items cs else None)"
| "json_scan AtEnd items (c # cs) = None"

definition json_unmarshal :: "string \<Rightarrow> string + string list" where
  "json_unmarshal bytes =
    (case json_scan AtStart [] bytes of
       None \<Rightarrow> Inl ''invalid character''
     | Some items \<Rightarrow> Inr items)"

subsection \<open>Sample hosts\<close>

definition host_fresh :: Host where
  "host_fresh =
    \<lparr>caller_ok = True, history_file = NotExist, mkdir_error = None, write_error = None\<rparr>"

definition host_one :: Host where
  "host_one = snd (addRecentSearch json_marshal json_unmarshal host_fresh ''ephemeral'')"

definition host_two :: Host where
  "host_two = snd (addRecentSearch json_marshal json_unmarshal host_one ''second'')"

section \<open>The nested-meanings normalizer\<close>

lemma ConvertDictEntries_defs_eq:
  "ConvertDictEntries_defs entry meaning defs acc = acc @ map (leaf_Definition entry meaning) defs"
  by (induction defs arbitrary: acc) (simp_all add: leaf_Definition_def)

lemma ConvertDictEntries_meanings_eq:
  "ConvertDictEntries_meanings entry meanings acc =
     acc @ concat (map (\<lambda>meaning. map (leaf_Definition entry meaning) (Definitions meaning)) meanings)"
  by (induction meanings arbitrary: acc) (simp_all add: ConvertDictEntries_defs_eq)

lemma ConvertDictEntries_entries_eq:
  "ConvertDictEntries_entries entries acc = acc @ concat (map entry_leaves entries)"
  by (induction entries arbitrary: acc)
     (simp_all add: ConvertDictEntries_meanings_eq entry_leaves_def)

lemma ConvertDictEntries_eq: "ConvertDictEntries entries = concat (map entry_leaves entries)"
  by (simp add: ConvertDictEntries_def ConvertDictEntries_entries_eq)

lemma length_entry_leaves: "length (entry_leaves entry) = leaf_count entry"
  by (simp add: entry_leaves_def leaf_count_def length_concat comp_def)

lemma Source_entry_leaves: "d \<in> set (entry_leaves entry) \<Longrightarrow> Source d = ''dictionaryapi.dev''"
  by (auto simp: entry_leaves_def leaf_Definition_def)

section \<open>The graph-query normalizer\<close>

lemma ConvertDBnaryEntries_bindings_eq:
  "ConvertDBnaryEntries_bindings word bindings acc =
     acc @ map (row_Definition word) (filter row_kept bindings)"
  by (induction bindings arbitrary: acc)
     (simp_all add: Let_def row_kept_def row_Definition_def row_partOfSpeech_def
        cut_fragment_def binding_value_def split: option.splits)

lemma ConvertDBnaryEntries_entries_eq:
  "ConvertDBnaryEntries_entries word entries acc =
     acc @ map (row_Definition word) (filter row_kept (rows entries))"
  by (induction entries arbitrary: acc)
     (simp_all add: ConvertDBnaryEntries_bindings_eq rows_def)

lemma ConvertDBnaryEntries_eq:
  "ConvertDBnaryEntries entries word = map (row_Definition word) (kept_rows entries)"
  by (simp add: ConvertDBnaryEntries_def ConvertDBnaryEntries_entries_eq kept_rows_def)

lemma TrimSpace_Nil: "TrimSpace [] = []"
  by (simp add: TrimSpace_def TrimLeft.simps TrimRight.simps leadingSpace_Nil trailingSpace_Nil)

lemma LastIndex_scan_none: "\<forall>j<n. s ! j \<noteq> c \<Longrightarrow> LastIndex_scan s c n = - 1"
  by (induction n) simp_all

lemma LastIndex_absent: "c \<notin> set s \<Longrightarrow> LastIndex s c = - 1"
  unfolding LastIndex_def by (rule LastIndex_scan_none) (metis nth_mem)

lemma LastIndex_scan_found:
  "c \<notin> set frag \<Longrightarrow> k \<le> length frag \<Longrightarrow>
   LastIndex_scan (pre @ c # frag) c (Suc (length pre) + k) = int (length pre)"
proof (induction k)
  case 0
  then show ?case by simp
next
  case (Suc k)
  then have "frag ! k \<noteq> c"
    by (metis Suc_le_lessD nth_mem)
  moreover have "(pre @ c # frag) ! (Suc (length pre) + k) = frag ! k"
    by (simp add: nth_append)
  ultimately show ?case
    using Suc by simp
qed

lemma LastIndex_found: "c \<notin> set frag \<Longrightarrow> LastIndex (pre @ c # frag) c = int (length pre)"
  using LastIndex_scan_found [of c frag "length frag" pre] by (simp add: LastIndex_def)

lemma cut_fragment_absent: "CHR ''#'' \<notin> set pos \<Longrightarrow> cut_fragment pos = pos"
  by (simp add: cut_fragment_def LastIndex_absent)

lemma cut_fragment_found:
  "cut_fragment (pre @ CHR ''#'' # frag) = (if frag = [] then pre @ ''#'' else frag)"
  if "CHR ''#'' \<notin> set frag"
proof -
  have "nat (int (length pre) + 1) = Suc (length pre)"
    by simp
  then show ?thesis
    using that by (simp add: cut_fragment_def LastIndex_found)
qed

lemma cut_fragment_cases:
  "cut_fragment pos = pos \<or>
   (\<exists>pre frag. pos = pre @ CHR ''#'' # frag \<and> frag \<noteq> [] \<and> CHR ''#'' \<notin> set frag
      \<and> cut_fragment pos = frag)"
proof (cases "CHR ''#'' \<in> set pos")
  case False
  then show ?thesis by (simp add: cut_fragment_absent)
next
  case True
  then obtain pre frag where split: "pos = pre @ CHR ''#'' # frag" "CHR ''#'' \<notin> set frag"
    by (meson split_list_last)
  then show ?thesis
    by (cases "frag = []") (auto simp: cut_fragment_found)
qed

lemma after_last_hash_found:
  "CHR ''#'' \<notin> set frag \<Longrightarrow> after_last_hash (pre @ CHR ''#'' # frag) = frag"
proof -
  assume "CHR ''#'' \<notin> set frag"
  then have "takeWhile (\<lambda>c. c \<noteq> CHR ''#'') (rev frag @ CHR ''#'' # rev pre) = rev frag"
    by (auto simp: takeWhile_tail)
  then show ?thesis
    by (simp add: after_last_hash_def)
qed

subsection \<open>The sample rows\<close>

lemma TrimSpace_samples:
  "TrimSpace ''a jog'' = ''a jog''"
  "TrimSpace [CHR 0x20, CHR 0x09, CHR 0xC2, CHR 0xA0, CHR 0x0A] = []"
  "TrimSpace ''to move fast'' = ''to move fast''"
  "TrimSpace ''to flow'' = ''to flow''"
  "TrimSpace ''a score'' = ''a score''"
  by code_simp+

lemma row_kept_samples:
  "row_kept row_full" "\<not> row_kept row_blank" "\<not> row_kept row_no_definition"
  "row_kept row_hash_last" "row_kept row_no_hash" "row_kept row_no_partOfSpeech"
  by (simp_all add: row_kept_def binding_value_def index_map_def TrimSpace_samples TrimSpace_Nil
        row_full_def row_blank_def row_no_definition_def row_hash_last_def row_no_hash_def
        row_no_partOfSpeech_def)

lemma kept_rows_sample:
  "kept_rows [sample_result] = [row_full, row_hash_last, row_no_hash, row_no_partOfSpeech]"
  by (simp add: kept_rows_def rows_def sample_result_def row_kept_samples)

lemma ConvertDBnaryEntries_sample:
  "ConvertDBnaryEntries [sample_result] ''run'' =
     [\<lparr>Word = ''run'', PartOfSpeech = ''noun'', Definition = ''a jog'',
       Example = ''a morning run'', Source = ''DBnary''\<rparr>,
      \<lparr>Word = ''run'', PartOfSpeech = ''http://example.org/ontology#'',
       Definition = ''to move fast'', Example = [], Source = ''DBnary''\<rparr>,
      \<lparr>Word = ''run'', PartOfSpeech = ''verb'', Definition = ''to flow'', Example = [],
       Source = ''DBnary''\<rparr>,
      \<lparr>Word = ''run'', PartOfSpeech = [], Definition = ''a score'', Example = [],
       Source = ''DBnary''\<rparr>]"
proof -
  have "cut_fragment ''http://example.org/ontology#noun'' = ''noun''"
    using cut_fragment_found [of "''noun''" "''http://example.org/ontology''"] by simp
  moreover have "cut_fragment ''http://example.org/ontology#'' = ''http://example.org/ontology#''"
    using cut_fragment_found [of "[]" "''http://example.org/ontology''"] by simp
  moreover have "cut_fragment ''verb'' = ''verb''"
    by (simp add: cut_fragment_absent)
  ultimately show ?thesis
    by (simp add: ConvertDBnaryEntries_eq kept_rows_sample row_Definition_def
          row_partOfSpeech_def binding_value_def index_map_def row_full_def row_hash_last_def
          row_no_hash_def row_no_partOfSpeech_def)
qed

text \<open>
  C3.  For every list of nested-meanings records, \<open>ConvertDictEntries\<close> yields the
  leaves of the records in order: for a record whose meaning \<open>i\<close> has \<open>D\<^sub>i\<close>
  definitions, exactly the sum of the \<open>D\<^sub>i\<close> records, one per leaf definition, each
  with the part of speech of its meaning and the word of its entry.
\<close>

theorem ConvertDictEntries_flatten:
  "ConvertDictEntries entries = concat (map entry_leaves entries)
   \<and> length (ConvertDictEntries entries) = sum_list (map leaf_count entries)
   \<and> length (ConvertDictEntries [entry]) = leaf_count entry"
  by (simp add: ConvertDictEntries_eq length_concat comp_def length_entry_leaves)

theorem ConvertDictEntries_flatten_witness:
  "ConvertDictEntries [sample_entry] =
     [\<lparr>Word = ''run'', PartOfSpeech = ''noun'', Definition = ''a jog'', Example = '''',
       Source = ''dictionaryapi.dev''\<rparr>,
      \<lparr>Word = ''run'', PartOfSpeech = ''noun'', Definition = ''a score'',
       Example = ''a home run'', Source = ''dictionaryapi.dev''\<rparr>,
      \<lparr>Word = ''run'', PartOfSpeech = ''verb'', Definition = ''to move fast'', Example = '''',
       Source = ''dictionaryapi.dev''\<rparr>]
   \<and> length (ConvertDictEntries [sample_entry]) = 3"
  using ConvertDictEntries_flatten [of "[sample_entry]" sample_entry]
  by (simp add: entry_leaves_def leaf_Definition_def leaf_count_def sample_entry_def)

text \<open>
  C4.  For every graph-query result, the definitions \<open>ConvertDBnaryEntries\<close> produces
  are those of the rows whose \<open>definition\<close> value is not blank after trimming, in
  order; no produced record has an empty or blank definition; and the loop passes over
  a row whose \<open>definition\<close> variable is absent or blank without appending anything.
\<close>

theorem ConvertDBnaryEntries_drops_blank:
  "map Definition (ConvertDBnaryEntries entries word) =
     map (\<lambda>binding. binding_value binding ''definition'') (kept_rows entries)
   \<and> (\<forall>d \<in> set (ConvertDBnaryEntries entries word).
         Definition d \<noteq> [] \<and> TrimSpace (Definition d) \<noteq> [])
   \<and> (binding ''definition'' = None \<or> TrimSpace (binding_value binding ''definition'') = [] \<longrightarrow>
         ConvertDBnaryEntries_bindings word (binding # bindings) definitions =
         ConvertDBnaryEntries_bindings word bindings definitions)"
proof (intro conjI impI ballI)
  show "map Definition (ConvertDBnaryEntries entries word) =
          map (\<lambda>binding. binding_value binding ''definition'') (kept_rows entries)"
    by (simp add: ConvertDBnaryEntries_eq row_Definition_def comp_def)
next
  fix d
  assume "d \<in> set (ConvertDBnaryEntries entries word)"
  then obtain binding where "row_kept binding" "d = row_Definition word binding"
    by (auto simp: ConvertDBnaryEntries_eq kept_rows_def)
  then show "TrimSpace (Definition d) \<noteq> []"
    by (simp add: row_kept_def row_Definition_def)
  then show "Definition d \<noteq> []"
    using TrimSpace_Nil by auto
next
  assume "binding ''definition'' = None \<or> TrimSpace (binding_value binding ''definition'') = []"
  then have "\<not> row_kept binding"
    by (auto simp: row_kept_def binding_value_def TrimSpace_Nil)
  then show "ConvertDBnaryEntries_bindings word (binding # bindings) definitions =
             ConvertDBnaryEntries_bindings word bindings definitions"
    by (simp add: ConvertDBnaryEntries_bindings_eq)
qed

theorem ConvertDBnaryEntries_drops_blank_witness:
  "map Definition (ConvertDBnaryEntries [sample_result] ''run'') =
     [''a jog'', ''to move fast'', ''to flow'', ''a score'']
   \<and> \<lparr>Word = ''run'', PartOfSpeech = ''noun'', Definition = ''a jog'',
       Example = ''a morning run'', Source = ''DBnary''\<rparr>
       \<in> set (ConvertDBnaryEntries [sample_result] ''run'')
   \<and> TrimSpace ''a jog'' \<noteq> []
   \<and> row_no_definition ''definition'' = None
   \<and> ConvertDBnaryEntries_bindings ''run'' [row_no_definition] [] = []"
  using ConvertDBnaryEntries_drops_blank [where entries = "[sample_result]" and word = "''run''"
      and binding = row_no_definition and bindings = "[]" and definitions = "[]"]
  by (simp add: kept_rows_sample binding_value_def index_map_def row_full_def row_hash_last_def
        row_no_hash_def row_no_partOfSpeech_def row_no_definition_def
        ConvertDBnaryEntries_sample TrimSpace_samples)

text \<open>
  C5, as stated, fails: the second kept row of the sample binds \<open>partOfSpeech\<close> to the
  URI \<open>http://example.org/ontology#\<close>; nothing follows its last \<open>#\<close>, yet the record's
  part of speech is not empty but the whole URI.
\<close>

theorem ConvertDBnaryEntries_trailing_hash_counterexample:
  "(kept_rows [sample_result] ! 1) ''partOfSpeech'' =
     Some [''value'' \<mapsto> ''http://example.org/ontology#'']
   \<and> after_last_hash ''http://example.org/ontology#'' = []
   \<and> PartOfSpeech (ConvertDBnaryEntries [sample_result] ''run'' ! 1) =
       ''http://example.org/ontology#''
   \<and> PartOfSpeech (ConvertDBnaryEntries [sample_result] ''run'' ! 1) \<noteq>
       after_last_hash ''http://example.org/ontology#''"
proof -
  have "after_last_hash (''http://example.org/ontology'' @ CHR ''#'' # []) = []"
    by (rule after_last_hash_found) simp
  then show ?thesis
    by (simp add: kept_rows_sample row_hash_last_def ConvertDBnaryEntries_sample)
qed

text \<open>
  C5, amended.  For the \<open>i\<close>-th row that \<open>ConvertDBnaryEntries\<close> keeps, the part of
  speech of the \<open>i\<close>-th record is empty when the row has no \<open>partOfSpeech\<close> variable;
  it is what follows the last \<open>#\<close> of the variable's value when at least one character
  follows it, so \<open>http://example.org/ontology#noun\<close> gives \<open>noun\<close>; and it is the
  whole value when the value ends with \<open>#\<close>.
\<close>

theorem ConvertDBnaryEntries_partOfSpeech_fragment:
  assumes "i < length (kept_rows entries)"
  shows "((kept_rows entries ! i) ''partOfSpeech'' = None \<longrightarrow>
            PartOfSpeech (ConvertDBnaryEntries entries word ! i) = [])
       \<and> ((kept_rows entries ! i) ''partOfSpeech'' = Some v
            \<and> index_map v ''value'' = pre @ CHR ''#'' # frag
            \<and> CHR ''#'' \<notin> set frag \<and> frag \<noteq> [] \<longrightarrow>
            PartOfSpeech (ConvertDBnaryEntries entries word ! i) = frag
            \<and> frag = after_last_hash (index_map v ''value''))
       \<and> ((kept_rows entries ! i) ''partOfSpeech'' = Some v
            \<and> index_map v ''value'' = pre @ ''#'' \<longrightarrow>
            PartOfSpeech (ConvertDBnaryEntries entries word ! i) = index_map v ''value''
            \<and> after_last_hash (index_map v ''value'') = [])"
proof -
  have pos: "PartOfSpeech (ConvertDBnaryEntries entries word ! i) =
          row_partOfSpeech (kept_rows entries ! i)"
    using assms by (simp add: ConvertDBnaryEntries_eq row_Definition_def)
  have whole: "cut_fragment (pre @ ''#'') = pre @ ''#''"
    using cut_fragment_found [of "[]" pre] by simp
  have empty: "after_last_hash (pre @ ''#'') = []"
    using after_last_hash_found [of "[]" pre] by simp
  show ?thesis
    unfolding pos
    by (auto simp: row_partOfSpeech_def cut_fragment_found after_last_hash_found whole empty)
qed

theorem ConvertDBnaryEntries_partOfSpeech_fragment_witness:
  "0 < length (kept_rows [sample_result])
   \<and> (kept_rows [sample_result] ! 0) ''partOfSpeech'' =
       Some [''value'' \<mapsto> ''http://example.org/ontology#noun'']
   \<and> PartOfSpeech (ConvertDBnaryEntries [sample_result] ''run'' ! 0) = ''noun''
   \<and> after_last_hash ''http://example.org/ontology#noun'' = ''noun''
   \<and> 1 < length (kept_rows [sample_result])
   \<and> (kept_rows [sample_result] ! 1) ''partOfSpeech'' =
       Some [''value'' \<mapsto> ''http://example.org/ontology#'']
   \<and> PartOfSpeech (ConvertDBnaryEntries [sample_result] ''run'' ! 1) =
       ''http://example.org/ontology#''
   \<and> 3 < length (kept_rows [sample_result])
   \<and> (kept_rows [sample_result] ! 3) ''partOfSpeech'' = None
   \<and> PartOfSpeech (ConvertDBnaryEntries [sample_result] ''run'' ! 3) = []"
  using
    ConvertDBnaryEntries_partOfSpeech_fragment [where i = 0 and entries = "[sample_result]"
      and v = "[''value'' \<mapsto> ''http://example.org/ontology#noun'']"
      and pre = "''http://example.org/ontology''" and frag = "''noun''" and word = "''run''"]
    ConvertDBnaryEntries_partOfSpeech_fragment [where i = 1 and entries = "[sample_result]"
      and v = "[''value'' \<mapsto> ''http://example.org/ontology#'']"
      and pre = "''http://example.org/ontology''" and word = "''run''"]
    ConvertDBnaryEntries_partOfSpeech_fragment [where i = 3 and entries = "[sample_result]"
      and word = "''run''"]
  by (simp add: kept_rows_sample index_map_def row_full_def row_hash_last_def
        row_no_partOfSpeech_def)

text \<open>
  C10.  For the \<open>i\<close>-th kept row, when it has a \<open>partOfSpeech\<close> variable whose value
  contains no \<open>#\<close> or ends with \<open>#\<close>, the part of speech of the \<open>i\<close>-th record is the
  whole value; the record's part of speech differs from the value only when at least
  one character follows the last \<open>#\<close>, and then it is what follows.
\<close>

theorem ConvertDBnaryEntries_partOfSpeech_whole:
  assumes "i < length (kept_rows entries)"
    and "(kept_rows entries ! i) ''partOfSpeech'' = Some v"
  shows "(CHR ''#'' \<notin> set (index_map v ''value'') \<or> (\<exists>pre. index_map v ''value'' = pre @ ''#'') \<longrightarrow>
            PartOfSpeech (ConvertDBnaryEntries entries word ! i) = index_map v ''value'')
       \<and> (PartOfSpeech (ConvertDBnaryEntries entries word ! i) \<noteq> index_map v ''value'' \<longrightarrow>
            (\<exists>pre frag. index_map v ''value'' = pre @ CHR ''#'' # frag \<and> frag \<noteq> []
               \<and> CHR ''#'' \<notin> set frag
               \<and> PartOfSpeech (ConvertDBnaryEntries entries word ! i) = frag))"
proof -
  have "PartOfSpeech (ConvertDBnaryEntries entries word ! i) =
          row_partOfSpeech (kept_rows entries ! i)"
    using assms(1) by (simp add: ConvertDBnaryEntries_eq row_Definition_def)
  then have pos: "PartOfSpeech (ConvertDBnaryEntries entries word ! i) =
          cut_fragment (index_map v ''value'')"
    using assms(2) by (simp add: row_partOfSpeech_def)
  have "cut_fragment (pre @ ''#'') = pre @ ''#''" for pre
    using cut_fragment_found [of "[]" pre] by simp
  then show ?thesis
    unfolding pos using cut_fragment_cases [of "index_map v ''value''"]
    by (auto simp: cut_fragment_absent)
qed

theorem ConvertDBnaryEntries_partOfSpeech_whole_witness:
  "1 < length (kept_rows [sample_result])
   \<and> (kept_rows [sample_result] ! 1) ''partOfSpeech'' =
       Some [''value'' \<mapsto> ''http://example.org/ontology#'']
   \<and> PartOfSpeech (ConvertDBnaryEntries [sample_result] ''run'' ! 1) =
       ''http://example.org/ontology#''
   \<and> 2 < length (kept_rows [sample_result])
   \<and> (kept_rows [sample_result] ! 2) ''partOfSpeech'' = Some [''value'' \<mapsto> ''verb'']
   \<and> PartOfSpeech (ConvertDBnaryEntries [sample_result] ''run'' ! 2) = ''verb''"
  using
    ConvertDBnaryEntries_partOfSpeech_whole [where i = 1 and entries = "[sample_result]"
      and v = "[''value'' \<mapsto> ''http://example.org/ontology#'']" and word = "''run''"]
    ConvertDBnaryEntries_partOfSpeech_whole [where i = 2 and entries = "[sample_result]"
      and v = "[''value'' \<mapsto> ''verb'']" and word = "''run''"]
  by (simp add: kept_rows_sample index_map_def row_hash_last_def row_no_hash_def)

section \<open>The provider clients\<close>

lemma LookupDictEntry_decode_no_status:
  "LookupDictEntry_decode results entries \<noteq> Inl (APIStatusError code)"
  by (induction results entries rule: LookupDictEntry_decode.induct) simp_all

text \<open>
  C6, as stated, fails: 204 is a success status code, yet the first client answers a
  204 response with the status error.
\<close>

theorem LookupDictEntry_no_content_counterexample:
  "success_status 204
   \<and> dict_no_content ''run'' = Inr \<lparr>StatusCode = 204, Body = array_body\<rparr>
   \<and> LookupDictEntry dict_no_content ''run'' = Inl (APIStatusError 204)"
  by (simp add: success_status_def dict_no_content_def LookupDictEntry_def StatusOK_def)

text \<open>
  C6, amended.  For either client, a response whose status code is not 200 makes the
  fetch return the status error that carries the code, and no records: so does every
  code outside 2xx, and every 2xx code but 200.  A response with status code 200 never
  gives a status error.
\<close>

theorem Lookup_status_error:
  "(get word = Inr dict_response \<and> StatusCode dict_response \<noteq> 200 \<longrightarrow>
      LookupDictEntry get word = Inl (APIStatusError (StatusCode dict_response)))
   \<and> (do word = Responded response \<and> StatusCode response \<noteq> 200 \<longrightarrow>
      LookupDBnaryEntry do word = Inl (APIStatusError (StatusCode response)))
   \<and> (get word = Inr dict_response \<and> StatusCode dict_response = 200 \<longrightarrow>
      LookupDictEntry get word \<noteq> Inl (APIStatusError code))
   \<and> (do word = Responded response \<and> StatusCode response = 200 \<longrightarrow>
      LookupDBnaryEntry do word \<noteq> Inl (APIStatusError code))"
  by (auto simp: LookupDictEntry_def LookupDBnaryEntry_def StatusOK_def
        LookupDictEntry_decode_no_status split: sum.splits)

theorem Lookup_status_error_witness:
  "dict_not_found ''run'' = Inr \<lparr>StatusCode = 404, Body = object_body\<rparr>
   \<and> LookupDictEntry dict_not_found ''run'' = Inl (APIStatusError 404)
   \<and> dbnary_unavailable ''run'' = Responded \<lparr>StatusCode = 503, Body = Inl ''invalid character''\<rparr>
   \<and> LookupDBnaryEntry dbnary_unavailable ''run'' = Inl (APIStatusError 503)
   \<and> dict_ok ''run'' = Inr \<lparr>StatusCode = 200, Body = array_body\<rparr>
   \<and> LookupDictEntry dict_ok ''run'' \<noteq> Inl (APIStatusError 200)
   \<and> dbnary_ok ''run'' = Responded \<lparr>StatusCode = 200, Body = Inr sample_result\<rparr>
   \<and> LookupDBnaryEntry dbnary_ok ''run'' \<noteq> Inl (APIStatusError 200)"
  using
    Lookup_status_error [where get = dict_not_found and do = dbnary_unavailable
      and word = "''run''" and dict_response = "\<lparr>StatusCode = 404, Body = object_body\<rparr>"
      and response = "\<lparr>StatusCode = 503, Body = Inl ''invalid character''\<rparr>"]
    Lookup_status_error [where get = dict_ok and do = dbnary_ok
      and word = "''run''" and dict_response = "\<lparr>StatusCode = 200, Body = array_body\<rparr>"
      and response = "\<lparr>StatusCode = 200, Body = Inr sample_result\<rparr>" and code = 200]
  by (simp add: dict_not_found_def dbnary_unavailable_def dict_ok_def dbnary_ok_def)

text \<open>
  C7.  On a response with status 200 the first client reads the first token before it
  decodes any element: when that token is not the delimiter \<open>[\<close> the fetch returns the
  expected-array error, when the token cannot be read it returns the decoder's error,
  and entries are returned only when the first token is \<open>[\<close>.
\<close>

theorem LookupDictEntry_expects_array:
  assumes "get word = Inr response" and "StatusCode response = 200"
  shows "(first_token (Body response) = Inr token \<and> token \<noteq> Delim CHR ''['' \<longrightarrow>
            LookupDictEntry get word = Inl JSONExpectedArray)
       \<and> (first_token (Body response) = Inl err \<longrightarrow>
            LookupDictEntry get word = Inl (JSONError err))
       \<and> (LookupDictEntry get word = Inr entries \<longrightarrow>
            first_token (Body response) = Inr (Delim CHR ''[''))"
  using assms
  by (auto simp: LookupDictEntry_def StatusOK_def split: sum.splits if_splits)

theorem LookupDictEntry_expects_array_witness:
  "dict_object ''run'' = Inr \<lparr>StatusCode = 200, Body = object_body\<rparr>
   \<and> first_token object_body = Inr (Delim CHR ''{'')
   \<and> LookupDictEntry dict_object ''run'' = Inl JSONExpectedArray
   \<and> dict_ok ''run'' = Inr \<lparr>StatusCode = 200, Body = array_body\<rparr>
   \<and> LookupDictEntry dict_ok ''run'' = Inr [sample_entry]
   \<and> first_token array_body = Inr (Delim CHR ''['')"
  using
    LookupDictEntry_expects_array [where get = dict_object and word = "''run''"
      and response = "\<lparr>StatusCode = 200, Body = object_body\<rparr>" and token = "Delim CHR ''{''"]
    LookupDictEntry_expects_array [where get = dict_ok and word = "''run''"
      and response = "\<lparr>StatusCode = 200, Body = array_body\<rparr>" and entries = "[sample_entry]"]
  by (simp add: dict_object_def object_body_def dict_ok_def array_body_def LookupDictEntry_def
        StatusOK_def)

section \<open>Aggregation\<close>

subsection \<open>The channels after a schedule\<close>

lemma errChan_foldl_send: "errChan (foldl send ch schedule) = errChan ch @ sent_errors schedule"
  by (induction schedule arbitrary: ch rule: sent_errors.induct) simp_all

lemma drain_defs_eq: "drain_defs queue acc = acc @ concat queue"
  by (induction queue arbitrary: acc) simp_all

lemma LookupAll_run_error:
  "snd (snd (LookupAll_run w schedule)) =
     (case sent_errors schedule of [] \<Rightarrow> None | err # _ \<Rightarrow> Some err)"
  by (simp add: LookupAll_run_def LookupAll_collect_def Let_def errChan_foldl_send make_chans_def
        split: list.splits)

subsection \<open>The results in each of the four cases\<close>

lemma LookupAll_both_ok:
  assumes "LookupDictEntry (dict_get w) word = Inr es1"
    and "LookupDBnaryEntry (dbnary_do w) word = Inr es2"
  shows "set (LookupAll w word) =
    {(ConvertDictEntries es1 @ ConvertDBnaryEntries es2 word,
      \<lparr>Total = total_elapsed w,
       Sources = [''dictionaryapi.dev'' \<mapsto> dict_elapsed w, ''DBnary'' \<mapsto> dbnary_elapsed w]\<rparr>,
      None),
     (ConvertDBnaryEntries es2 word @ ConvertDictEntries es1,
      \<lparr>Total = total_elapsed w,
       Sources = [''dictionaryapi.dev'' \<mapsto> dict_elapsed w, ''DBnary'' \<mapsto> dbnary_elapsed w]\<rparr>,
      None)}"
proof -
  have twist: "[''DBnary'' \<mapsto> b, ''dictionaryapi.dev'' \<mapsto> a] =
      [''dictionaryapi.dev'' \<mapsto> a, ''DBnary'' \<mapsto> b]" for a b :: Duration
    by (rule fun_upd_twist) simp
  show ?thesis
    using assms
    by (auto simp: LookupAll_def task_dict_def task_dbnary_def LookupAll_run_def
          LookupAll_collect_def make_chans_def twist)
qed

lemma LookupAll_dict_failed:
  assumes "LookupDictEntry (dict_get w) word = Inl e1"
    and "LookupDBnaryEntry (dbnary_do w) word = Inr es2"
  shows "set (LookupAll w word) = {(ConvertDBnaryEntries es2 word, LookupTiming_zero, Some e1)}"
  using assms
  by (auto simp: LookupAll_def task_dict_def task_dbnary_def LookupAll_run_def
        LookupAll_collect_def make_chans_def)

lemma LookupAll_dbnary_failed:
  assumes "LookupDictEntry (dict_get w) word = Inr es1"
    and "LookupDBnaryEntry (dbnary_do w) word = Inl e2"
  shows "set (LookupAll w word) = {(ConvertDictEntries es1, LookupTiming_zero, Some e2)}"
  using assms
  by (auto simp: LookupAll_def task_dict_def task_dbnary_def LookupAll_run_def
        LookupAll_collect_def make_chans_def)

lemma LookupAll_both_failed:
  assumes "LookupDictEntry (dict_get w) word = Inl e1"
    and "LookupDBnaryEntry (dbnary_do w) word = Inl e2"
  shows "set (LookupAll w word) = {([], LookupTiming_zero, Some e1), ([], LookupTiming_zero, Some e2)}"
  using assms
  by (auto simp: LookupAll_def task_dict_def task_dbnary_def LookupAll_run_def
        LookupAll_collect_def make_chans_def)

subsection \<open>What every result holds\<close>

lemma LookupAll_cases:
  assumes "(defs, timing, err) \<in> set (LookupAll w word)"
  obtains
    (both_ok) es1 es2 where
      "LookupDictEntry (dict_get w) word = Inr es1"
      "LookupDBnaryEntry (dbnary_do w) word = Inr es2"
      "defs = ConvertDictEntries es1 @ ConvertDBnaryEntries es2 word
         \<or> defs = ConvertDBnaryEntries es2 word @ ConvertDictEntries es1"
      "timing = \<lparr>Total = total_elapsed w,
         Sources = [''dictionaryapi.dev'' \<mapsto> dict_elapsed w, ''DBnary'' \<mapsto> dbnary_elapsed w]\<rparr>"
      "err = None"
  | (dict_failed) e1 es2 where
      "LookupDictEntry (dict_get w) word = Inl e1"
      "LookupDBnaryEntry (dbnary_do w) word = Inr es2"
      "defs = ConvertDBnaryEntries es2 word" "timing = LookupTiming_zero" "err = Some e1"
  | (dbnary_failed) es1 e2 where
      "LookupDictEntry (dict_get w) word = Inr es1"
      "LookupDBnaryEntry (dbnary_do w) word = Inl e2"
      "defs = ConvertDictEntries es1" "timing = LookupTiming_zero" "err = Some e2"
  | (both_failed) e1 e2 where
      "LookupDictEntry (dict_get w) word = Inl e1"
      "LookupDBnaryEntry (dbnary_do w) word = Inl e2"
      "defs = []" "timing = LookupTiming_zero" "err = Some e1 \<or> err = Some e2"
proof (cases "LookupDictEntry (dict_get w) word")
  case (Inl e1)
  show ?thesis
  proof (cases "LookupDBnaryEntry (dbnary_do w) word")
    case (Inl e2)
    with \<open>LookupDictEntry (dict_get w) word = Inl e1\<close> assms both_failed show ?thesis
      by (auto simp: LookupAll_both_failed)
  next
    case (Inr es2)
    with \<open>LookupDictEntry (dict_get w) word = Inl e1\<close> assms dict_failed show ?thesis
      by (auto simp: LookupAll_dict_failed)
  qed
next
  case (Inr es1)
  show ?thesis
  proof (cases "LookupDBnaryEntry (dbnary_do w) word")
    case (Inl e2)
    with \<open>LookupDictEntry (dict_get w) word = Inr es1\<close> assms dbnary_failed show ?thesis
      by (auto simp: LookupAll_dbnary_failed)
  next
    case (Inr es2)
    with \<open>LookupDictEntry (dict_get w) word = Inr es1\<close> assms both_ok show ?thesis
      by (auto simp: LookupAll_both_ok)
  qed
qed

lemma LookupAll_defs:
  assumes "(defs, timing, err) \<in> set (LookupAll w word)"
  shows "defs = dict_delivered w word @ dbnary_delivered w word
       \<or> defs = dbnary_delivered w word @ dict_delivered w word"
  using assms by (cases rule: LookupAll_cases) (auto simp: dict_delivered_def dbnary_delivered_def)

lemma Source_ConvertDictEntries:
  "d \<in> set (ConvertDictEntries entries) \<Longrightarrow> Source d = ''dictionaryapi.dev''"
  by (auto simp: ConvertDictEntries_eq Source_entry_leaves)

lemma Source_ConvertDBnaryEntries:
  "d \<in> set (ConvertDBnaryEntries entries word) \<Longrightarrow> Source d = ''DBnary''"
  by (auto simp: ConvertDBnaryEntries_eq row_Definition_def)

lemma Source_delivered:
  "d \<in> set (dict_delivered w word) \<Longrightarrow> Source d = ''dictionaryapi.dev''"
  "d \<in> set (dbnary_delivered w word) \<Longrightarrow> Source d = ''DBnary''"
  by (auto simp: dict_delivered_def dbnary_delivered_def Source_ConvertDictEntries
        Source_ConvertDBnaryEntries split: sum.splits)

subsection \<open>The sample worlds\<close>

lemma ConvertDictEntries_sample:
  "ConvertDictEntries [sample_entry] =
     [\<lparr>Word = ''run'', PartOfSpeech = ''noun'', Definition = ''a jog'', Example = '''',
       Source = ''dictionaryapi.dev''\<rparr>,
      \<lparr>Word = ''run'', PartOfSpeech = ''noun'', Definition = ''a score'',
       Example = ''a home run'', Source = ''dictionaryapi.dev''\<rparr>,
      \<lparr>Word = ''run'', PartOfSpeech = ''verb'', Definition = ''to move fast'', Example = '''',
       Source = ''dictionaryapi.dev''\<rparr>]"
  by (simp add: ConvertDictEntries_eq entry_leaves_def leaf_Definition_def sample_entry_def)

lemma Lookup_samples:
  "LookupDictEntry dict_ok ''run'' = Inr [sample_entry]"
  "LookupDBnaryEntry dbnary_ok ''run'' = Inr [sample_result]"
  "LookupDBnaryEntry dbnary_timeout ''run'' = Inl (TransportError ''context deadline exceeded'')"
  by (simp_all add: LookupDictEntry_def LookupDBnaryEntry_def StatusOK_def dict_ok_def
        array_body_def dbnary_ok_def dbnary_timeout_def)

lemma world_samples:
  "dict_get world_timeout = dict_ok" "dbnary_do world_timeout = dbnary_timeout"
  "dict_get world_ok = dict_ok" "dbnary_do world_ok = dbnary_ok"
  "dict_elapsed world_ok = 150" "dbnary_elapsed world_ok = 300" "total_elapsed world_ok = 310"
  by (simp_all add: world_timeout_def world_ok_def)

lemma LookupAll_world_timeout:
  "set (LookupAll world_timeout ''run'') =
     {(ConvertDictEntries [sample_entry], LookupTiming_zero,
       Some (TransportError ''context deadline exceeded''))}"
  by (rule LookupAll_dbnary_failed) (simp_all add: world_samples Lookup_samples)

lemma LookupAll_world_ok:
  "set (LookupAll world_ok ''run'') =
     {(ConvertDictEntries [sample_entry] @ ConvertDBnaryEntries [sample_result] ''run'',
       \<lparr>Total = 310, Sources = [''dictionaryapi.dev'' \<mapsto> 150, ''DBnary'' \<mapsto> 300]\<rparr>, None),
      (ConvertDBnaryEntries [sample_result] ''run'' @ ConvertDictEntries [sample_entry],
       \<lparr>Total = 310, Sources = [''dictionaryapi.dev'' \<mapsto> 150, ''DBnary'' \<mapsto> 300]\<rparr>, None)}"
  using LookupAll_both_ok [of world_ok "''run''" "[sample_entry]" "[sample_result]"]
  by (simp add: world_samples Lookup_samples)

subsection \<open>Errors\<close>

text \<open>
  C1, as stated, fails: when the second provider times out and the first succeeds,
  the one result of \<open>LookupAll\<close> carries the error, the zero timing record, and the
  three definitions of the first provider.
\<close>

theorem LookupAll_partial_definitions_counterexample:
  "LookupDBnaryEntry (dbnary_do world_timeout) ''run'' =
     Inl (TransportError ''context deadline exceeded'')
   \<and> set (LookupAll world_timeout ''run'') =
     {([\<lparr>Word = ''run'', PartOfSpeech = ''noun'', Definition = ''a jog'', Example = '''',
         Source = ''dictionaryapi.dev''\<rparr>,
        \<lparr>Word = ''run'', PartOfSpeech = ''noun'', Definition = ''a score'',
         Example = ''a home run'', Source = ''dictionaryapi.dev''\<rparr>,
        \<lparr>Word = ''run'', PartOfSpeech = ''verb'', Definition = ''to move fast'', Example = '''',
         Source = ''dictionaryapi.dev''\<rparr>],
       LookupTiming_zero, Some (TransportError ''context deadline exceeded''))}"
  by (simp add: LookupAll_world_timeout ConvertDictEntries_sample Lookup_samples world_samples)

text \<open>
  C1, amended.  Under every schedule, if either provider task reports an error,
  \<open>LookupAll\<close> returns the first error sent on the error channel, which is an error of
  one of the providers, together with the zero-value timing record: the per-source
  timings are discarded.  The definitions it returns are those the tasks delivered,
  so those of a provider that succeeded are kept.
\<close>

theorem LookupAll_error:
  assumes "(defs, timing, err) \<in> set (LookupAll w word)"
    and "isl (LookupDictEntry (dict_get w) word) \<or> isl (LookupDBnaryEntry (dbnary_do w) word)"
  shows "timing = LookupTiming_zero
       \<and> (\<exists>e. err = Some e
            \<and> (LookupDictEntry (dict_get w) word = Inl e
               \<or> LookupDBnaryEntry (dbnary_do w) word = Inl e))
       \<and> (\<exists>schedule \<in> set (interleavings (task_dict w word) (task_dbnary w word)).
            (defs, timing, err) = LookupAll_run w schedule
            \<and> sent_errors schedule \<noteq> [] \<and> err = Some (hd (sent_errors schedule)))
       \<and> defs = dict_delivered w word @ dbnary_delivered w word"
proof -
  obtain schedule where schedule:
    "schedule \<in> set (interleavings (task_dict w word) (task_dbnary w word))"
    "(defs, timing, err) = LookupAll_run w schedule"
    using assms(1) by (auto simp: LookupAll_def)
  from assms have facts: "timing = LookupTiming_zero"
    "\<exists>e. err = Some e
       \<and> (LookupDictEntry (dict_get w) word = Inl e \<or> LookupDBnaryEntry (dbnary_do w) word = Inl e)"
    "defs = dict_delivered w word @ dbnary_delivered w word"
    by (cases rule: LookupAll_cases; auto simp: dict_delivered_def dbnary_delivered_def)+
  have "err = (case sent_errors schedule of [] \<Rightarrow> None | first # _ \<Rightarrow> Some first)"
    using LookupAll_run_error [of w schedule] schedule(2) by (metis snd_conv)
  with facts(2) have "sent_errors schedule \<noteq> [] \<and> err = Some (hd (sent_errors schedule))"
    by (auto split: list.splits)
  with schedule facts show ?thesis
    by blast
qed

theorem LookupAll_error_witness:
  "(ConvertDictEntries [sample_entry], LookupTiming_zero,
      Some (TransportError ''context deadline exceeded''))
     \<in> set (LookupAll world_timeout ''run'')
   \<and> isl (LookupDBnaryEntry (dbnary_do world_timeout) ''run'')
   \<and> ConvertDictEntries [sample_entry] =
       dict_delivered world_timeout ''run'' @ dbnary_delivered world_timeout ''run''
   \<and> length (ConvertDictEntries [sample_entry]) = 3"
  using LookupAll_error [where w = world_timeout and word = "''run''"
      and defs = "ConvertDictEntries [sample_entry]" and timing = LookupTiming_zero
      and err = "Some (TransportError ''context deadline exceeded'')"]
  by (simp add: LookupAll_world_timeout world_samples Lookup_samples dict_delivered_def
        dbnary_delivered_def ConvertDictEntries_sample)

subsection \<open>Timings\<close>

text \<open>
  C2.  Under every schedule, when \<open>LookupAll\<close> returns no error both providers
  completed successfully, the returned definitions are the two lists the providers
  delivered, in one order or the other, and \<open>Sources\<close> has exactly one entry for each
  of the two: the provider's name mapped to its elapsed time.  In every result, a name
  is a key of \<open>Sources\<close> only if it is the name of a provider that completed
  successfully.
\<close>

theorem LookupAll_sources:
  assumes "(defs, timing, err) \<in> set (LookupAll w word)"
  shows "(err = None \<longrightarrow>
            (\<exists>es1 es2.
                LookupDictEntry (dict_get w) word = Inr es1
              \<and> LookupDBnaryEntry (dbnary_do w) word = Inr es2
              \<and> (defs = ConvertDictEntries es1 @ ConvertDBnaryEntries es2 word
                 \<or> defs = ConvertDBnaryEntries es2 word @ ConvertDictEntries es1))
          \<and> Sources timing =
              [''dictionaryapi.dev'' \<mapsto> dict_elapsed w, ''DBnary'' \<mapsto> dbnary_elapsed w]
          \<and> dom (Sources timing) = {''dictionaryapi.dev'', ''DBnary''}
          \<and> Source ` set defs \<subseteq> dom (Sources timing)
          \<and> Total timing = total_elapsed w)
       \<and> (''dictionaryapi.dev'' \<in> dom (Sources timing) \<longrightarrow>
            \<not> isl (LookupDictEntry (dict_get w) word))
       \<and> (''DBnary'' \<in> dom (Sources timing) \<longrightarrow>
            \<not> isl (LookupDBnaryEntry (dbnary_do w) word))
       \<and> dom (Sources timing) \<subseteq> {''dictionaryapi.dev'', ''DBnary''}"
  using assms
proof (cases rule: LookupAll_cases)
  case (both_ok es1 es2)
  have "Source ` set defs \<subseteq> {''dictionaryapi.dev'', ''DBnary''}"
    using both_ok(3) by (auto dest: Source_ConvertDictEntries Source_ConvertDBnaryEntries)
  with both_ok show ?thesis
    by auto
qed (auto simp: LookupTiming_zero_def)

theorem LookupAll_sources_witness:
  "(ConvertDictEntries [sample_entry] @ ConvertDBnaryEntries [sample_result] ''run'',
      \<lparr>Total = 310, Sources = [''dictionaryapi.dev'' \<mapsto> 150, ''DBnary'' \<mapsto> 300]\<rparr>, None)
     \<in> set (LookupAll world_ok ''run'')
   \<and> dom [''dictionaryapi.dev'' \<mapsto> 150 :: Duration, ''DBnary'' \<mapsto> 300] =
       {''dictionaryapi.dev'', ''DBnary''}
   \<and> \<not> isl (LookupDictEntry (dict_get world_ok) ''run'')
   \<and> \<not> isl (LookupDBnaryEntry (dbnary_do world_ok) ''run'')"
  using LookupAll_sources [where w = world_ok and word = "''run''"
      and defs = "ConvertDictEntries [sample_entry] @ ConvertDBnaryEntries [sample_result] ''run''"
      and timing = "\<lparr>Total = 310, Sources = [''dictionaryapi.dev'' \<mapsto> 150, ''DBnary'' \<mapsto> 300]\<rparr>"
      and err = None]
  by (simp add: LookupAll_world_ok)

subsection \<open>Provenance\<close>

text \<open>
  C9.  Every record \<open>ConvertDictEntries\<close> produces has source \<open>dictionaryapi.dev\<close>,
  every record \<open>ConvertDBnaryEntries\<close> produces has source \<open>DBnary\<close>, and every
  record in a result of \<open>LookupAll\<close>, with or without an error, has one of the two.
\<close>

theorem Source_provenance:
  "(\<forall>d \<in> set (ConvertDictEntries entries). Source d = ''dictionaryapi.dev'')
   \<and> (\<forall>d \<in> set (ConvertDBnaryEntries results word). Source d = ''DBnary'')
   \<and> (\<forall>(defs, timing, err) \<in> set (LookupAll w word).
         \<forall>d \<in> set defs. Source d = ''dictionaryapi.dev'' \<or> Source d = ''DBnary'')"
proof (intro conjI ballI)
  fix result d
  assume result: "result \<in> set (LookupAll w word)"
  obtain defs timing err where "result = (defs, timing, err)"
    by (cases result)
  with result
  have "defs = dict_delivered w word @ dbnary_delivered w word
       \<or> defs = dbnary_delivered w word @ dict_delivered w word"
    using LookupAll_defs by blast
  then have "\<forall>d \<in> set defs. Source d = ''dictionaryapi.dev'' \<or> Source d = ''DBnary''"
    by (auto dest: Source_delivered)
  then show "case result of (defs, timing, err) \<Rightarrow>
      \<forall>d \<in> set defs. Source d = ''dictionaryapi.dev'' \<or> Source d = ''DBnary''"
    using \<open>result = (defs, timing, err)\<close> by simp
qed (simp_all add: Source_ConvertDictEntries Source_ConvertDBnaryEntries)

theorem Source_provenance_witness:
  "map Source (ConvertDictEntries [sample_entry]) =
     [''dictionaryapi.dev'', ''dictionaryapi.dev'', ''dictionaryapi.dev'']
   \<and> map Source (ConvertDBnaryEntries [sample_result] ''run'') =
     [''DBnary'', ''DBnary'', ''DBnary'', ''DBnary'']
   \<and> (ConvertDictEntries [sample_entry], LookupTiming_zero,
        Some (TransportError ''context deadline exceeded''))
       \<in> set (LookupAll world_timeout ''run'')"
  using Source_provenance [where entries = "[sample_entry]" and results = "[sample_result]"
      and word = "''run''" and w = world_timeout]
  by (simp add: ConvertDictEntries_sample ConvertDBnaryEntries_sample LookupAll_world_timeout)

section \<open>Search history\<close>

lemma getRecentSearches_absent:
  "caller_ok h \<Longrightarrow> history_file h = NotExist \<Longrightarrow> getRecentSearches unmarshal h = Inr []"
  by (simp add: getRecentSearches_def ReadFile_def)

lemma addRecentSearch_ok:
  assumes "caller_ok h" "mkdir_error h = None" "write_error h = None"
    and "getRecentSearches unmarshal h = Inr searches"
    and "marshal (searches @ [word]) = Inr jsonString"
  shows "addRecentSearch marshal unmarshal h word =
           (Inr jsonString, h\<lparr>history_file := Contents jsonString\<rparr>)"
  using assms by (simp add: addRecentSearch_def addRecentSearch_write_def)

lemma getRecentSearches_Contents:
  "caller_ok h \<Longrightarrow>
   getRecentSearches unmarshal (h\<lparr>history_file := Contents jsonString\<rparr>) =
     (case unmarshal jsonString of
        Inl err \<Rightarrow> Inl (JSONError err) | Inr searches \<Rightarrow> Inr searches)"
  by (simp add: getRecentSearches_def ReadFile_def)

text \<open>
  C8.  On a host where the path resolves, reading an absent history file gives the
  empty list and no error.  Where, in addition, directory and file can be written and
  the JSON encoding of the extended list decodes to that list: if the history reads as
  \<open>searches\<close>, then \<open>addRecentSearch word\<close> writes the encoding of
  \<open>searches @ [word]\<close> and the history reads as \<open>searches @ [word]\<close> afterwards.  From
  the absent file, adding \<open>ephemeral\<close> and then \<open>second\<close> gives the history
  \<open>[ephemeral]\<close> and then \<open>[ephemeral, second]\<close>.
\<close>

theorem history_round_trip:
  assumes "caller_ok h" "mkdir_error h = None" "write_error h = None"
    and "getRecentSearches unmarshal h = Inr searches"
    and "marshal (searches @ [word]) = Inr jsonString"
    and "unmarshal jsonString = Inr (searches @ [word])"
  shows "(history_file h = NotExist \<longrightarrow> searches = [])
       \<and> addRecentSearch marshal unmarshal h word =
           (Inr jsonString, h\<lparr>history_file := Contents jsonString\<rparr>)
       \<and> getRecentSearches unmarshal (snd (addRecentSearch marshal unmarshal h word)) =
           Inr (searches @ [word])"
proof -
  have "history_file h = NotExist \<longrightarrow> searches = []"
    using assms(1,4) by (auto simp: getRecentSearches_absent)
  moreover have "addRecentSearch marshal unmarshal h word =
      (Inr jsonString, h\<lparr>history_file := Contents jsonString\<rparr>)"
    using assms(1-5) by (rule addRecentSearch_ok)
  moreover have "getRecentSearches unmarshal (h\<lparr>history_file := Contents jsonString\<rparr>) =
      Inr (searches @ [word])"
    using assms(1,6) by (simp add: getRecentSearches_Contents)
  ultimately show ?thesis
    by simp
qed

lemma json_samples:
  "json_marshal [''ephemeral''] = Inr ([CHR ''['', CHR 0x22] @ ''ephemeral'' @ [CHR 0x22, CHR '']''])"
  "json_unmarshal ([CHR ''['', CHR 0x22] @ ''ephemeral'' @ [CHR 0x22, CHR '']'']) =
     Inr [''ephemeral'']"
  "json_marshal [''ephemeral'', ''second''] =
     Inr ([CHR ''['', CHR 0x22] @ ''ephemeral'' @ [CHR 0x22, CHR '','', CHR 0x22] @ ''second''
          @ [CHR 0x22, CHR '']''])"
  "json_unmarshal ([CHR ''['', CHR 0x22] @ ''ephemeral'' @ [CHR 0x22, CHR '','', CHR 0x22]
       @ ''second'' @ [CHR 0x22, CHR '']'']) = Inr [''ephemeral'', ''second'']"
  by (simp_all add: json_marshal_def json_unmarshal_def)

lemma host_fresh_ok:
  "caller_ok host_fresh" "mkdir_error host_fresh = None" "write_error host_fresh = None"
  "history_file host_fresh = NotExist"
  by (simp_all add: host_fresh_def)

theorem history_round_trip_witness:
  "getRecentSearches json_unmarshal host_fresh = Inr []
   \<and> history_file host_fresh = NotExist
   \<and> getRecentSearches json_unmarshal host_one = Inr [''ephemeral'']
   \<and> history_file host_one =
       Contents ([CHR ''['', CHR 0x22] @ ''ephemeral'' @ [CHR 0x22, CHR '']''])
   \<and> getRecentSearches json_unmarshal host_two = Inr [''ephemeral'', ''second'']
   \<and> history_file host_two =
       Contents ([CHR ''['', CHR 0x22] @ ''ephemeral'' @ [CHR 0x22, CHR '','', CHR 0x22]
         @ ''second'' @ [CHR 0x22, CHR '']''])"
proof -
  let ?j1 = "[CHR ''['', CHR 0x22] @ ''ephemeral'' @ [CHR 0x22, CHR '']'']"
  let ?j2 = "[CHR ''['', CHR 0x22] @ ''ephemeral'' @ [CHR 0x22, CHR '','', CHR 0x22]
         @ ''second'' @ [CHR 0x22, CHR '']'']"
  have fresh: "getRecentSearches json_unmarshal host_fresh = Inr []"
    by (simp add: getRecentSearches_absent host_fresh_ok)
  have m1: "json_marshal ([] @ [''ephemeral'']) = Inr ?j1"
    and u1: "json_unmarshal ?j1 = Inr ([] @ [''ephemeral''])"
    using json_samples(1,2) by simp_all
  have step1: "host_one = host_fresh\<lparr>history_file := Contents ?j1\<rparr>"
    "getRecentSearches json_unmarshal host_one = Inr ([] @ [''ephemeral''])"
    using history_round_trip [where marshal = json_marshal and unmarshal = json_unmarshal
        and searches = "[]" and word = "''ephemeral''", OF host_fresh_ok(1-3) fresh m1 u1]
    unfolding host_one_def by auto
  have ok: "caller_ok host_one" "mkdir_error host_one = None" "write_error host_one = None"
    by (simp_all add: step1(1) host_fresh_ok)
  have m2: "json_marshal ([''ephemeral''] @ [''second'']) = Inr ?j2"
    and u2: "json_unmarshal ?j2 = Inr ([''ephemeral''] @ [''second''])"
    using json_samples(3,4) by simp_all
  have read1: "getRecentSearches json_unmarshal host_one = Inr [''ephemeral'']"
    using step1(2) by simp
  have step2: "host_two = host_one\<lparr>history_file := Contents ?j2\<rparr>"
    "getRecentSearches json_unmarshal host_two = Inr ([''ephemeral''] @ [''second''])"
    using history_round_trip [where marshal = json_marshal and unmarshal = json_unmarshal
        and searches = "[''ephemeral'']" and word = "''second''", OF ok read1 m2 u2]
    unfolding host_two_def by auto
  show ?thesis
    using fresh read1 step2(2) by (simp add: step1(1) step2(1) host_fresh_ok)
qed

end
